theory Spec2Isabelle
  imports Complex_Main "HOL-Library.Sublist"
begin

section \<open>The image processing sidecar \<^verbatim>\<open>image_processor.py\<close>\<close>

text \<open>
  The program is one Python file with two functions, \<^verbatim>\<open>process_image\<close> and
  \<^verbatim>\<open>main\<close>. Everything it does to the outside world goes through \<^verbatim>\<open>os.path\<close>,
  Pillow and \<^verbatim>\<open>print\<close>. The embedding keeps the control flow of the two
  functions as it is written (the \<^verbatim>\<open>try\<close> with its two handlers, the nested font
  fallback, the two nested \<^verbatim>\<open>for\<close> loops) and takes the library calls as
  parameters that may return a value or raise.
\<close>

subsection \<open>Python values used by the program\<close>

text \<open>
  An exception object: the name of its class (\<^verbatim>\<open>type(e).__name__\<close>), the names of
  the classes it inherits from, and \<^verbatim>\<open>str(e)\<close>. \<^verbatim>\<open>isinstance\<close> looks the class up
  among the object's own class and its ancestors, which is what an \<^verbatim>\<open>except C\<close>
  clause tests.
\<close>

datatype pyexn = PyExn (exn_name: string) (exn_bases: "string list") (exn_str: string)

definition isinstance :: "pyexn \<Rightarrow> string \<Rightarrow> bool" where
  "isinstance e c = (c = exn_name e \<or> c \<in> set (exn_bases e))"

text \<open>\<^verbatim>\<open>FileNotFoundError(msg)\<close>, with the ancestors the built-in class has.\<close>

definition FileNotFoundError :: "string \<Rightarrow> pyexn" where
  "FileNotFoundError msg =
     PyExn ''FileNotFoundError'' [''OSError'', ''Exception'', ''BaseException''] msg"

text \<open>
  The dictionaries passed to \<^verbatim>\<open>json.dumps\<close>: string keys in insertion order, with
  string, number or nested dictionary values.
\<close>

datatype json = JString string | JNumber rat | JObject "(string \<times> json) list"

fun json_get :: "json \<Rightarrow> string \<Rightarrow> json option" where
  "json_get (JObject kvs) k = map_of kvs k"
| "json_get _ k = None"

text \<open>\<^verbatim>\<open>str\<close> of an integer, as an f-string formats it: decimal, with a sign when negative.\<close>

definition digit_char :: "nat \<Rightarrow> char" where
  "digit_char d =
     (if d = 0 then CHR ''0'' else if d = 1 then CHR ''1'' else if d = 2 then CHR ''2''
      else if d = 3 then CHR ''3'' else if d = 4 then CHR ''4'' else if d = 5 then CHR ''5''
      else if d = 6 then CHR ''6'' else if d = 7 then CHR ''7'' else if d = 8 then CHR ''8''
      else CHR ''9'')"

fun str_nat :: "nat \<Rightarrow> string" where
  "str_nat n =
     (if n < 10 then [digit_char n] else str_nat (n div 10) @ [digit_char (n mod 10)])"

definition str_int :: "int \<Rightarrow> string" where
  "str_int i = (if i < 0 then CHR ''-'' # str_nat (nat (- i)) else str_nat (nat i))"

text \<open>\<^verbatim>\<open>range(a, b)\<close> over integers.\<close>

definition py_range :: "int \<Rightarrow> int \<Rightarrow> int list" where
  "py_range a b = [a..b - 1]"

subsection \<open>Floating point\<close>

text \<open>
  A Python float is an IEEE double. The model keeps a double as an integer mantissa and a
  binary exponent, \<open>Double m e\<close> standing for \<open>m * 2 ^ e\<close>, and rounds every result to
  53 significant bits, ties to even; overflow and subnormals are out of reach for the
  magnitudes of this program (image sides and file sizes).
\<close>

fun bitlen :: "nat \<Rightarrow> nat" where
  "bitlen n = (if n = 0 then 0 else Suc (bitlen (n div 2)))"

definition rne_div :: "int \<Rightarrow> int \<Rightarrow> int" where
  \<comment> \<open>\<open>a / b\<close> for \<open>0 \<le> a\<close> and \<open>0 < b\<close>, rounded to the nearest integer, ties to even\<close>
  "rne_div a b =
     (let q = a div b; r = a mod b
      in if 2 * r > b \<or> (2 * r = b \<and> odd q) then q + 1 else q)"

definition round53 :: "int \<Rightarrow> int" where
  \<comment> \<open>an integer rounded to 53 significant bits, sign and magnitude\<close>
  "round53 m =
     (let s = bitlen (nat \<bar>m\<bar>) - 53 in sgn m * (rne_div \<bar>m\<bar> (2 ^ s) * 2 ^ s))"

datatype double = Double (mant: int) (expo: int)

definition double_of_int :: "int \<Rightarrow> double" where
  \<comment> \<open>the conversion of an \<^verbatim>\<open>int\<close> operand in mixed arithmetic\<close>
  "double_of_int i = Double (round53 i) 0"

definition double_mul :: "double \<Rightarrow> double \<Rightarrow> double" where
  \<comment> \<open>the exact product, rounded\<close>
  "double_mul a b = Double (round53 (mant a * mant b)) (expo a + expo b)"

definition lit_0_05 :: double where
  \<comment> \<open>the literal \<^verbatim>\<open>0.05\<close>: the double nearest to 1/20, which is \<open>3602879701896397 / 2 ^ 56\<close>\<close>
  "lit_0_05 = Double 3602879701896397 (- 56)"

definition py_int :: "double \<Rightarrow> int" where
  \<comment> \<open>\<^verbatim>\<open>int(x)\<close>: truncation toward zero\<close>
  "py_int d =
     (if 0 \<le> expo d then mant d * 2 ^ nat (expo d)
      else sgn (mant d) * (\<bar>mant d\<bar> div 2 ^ nat (- expo d)))"

definition py_round :: "double \<Rightarrow> int" where
  \<comment> \<open>\<^verbatim>\<open>round(x)\<close>: the nearest integer, ties to even. The program never calls it; it is
      the rounding that the specification names for the font size\<close>
  "py_round d =
     (if 0 \<le> expo d then mant d * 2 ^ nat (expo d)
      else sgn (mant d) * rne_div \<bar>mant d\<bar> (2 ^ nat (- expo d)))"

definition truediv_2_20 :: "int \<Rightarrow> double" where
  \<comment> \<open>\<^verbatim>\<open>n / (1024 * 1024)\<close>: the divisor is \<open>2 ^ 20\<close>, so the correctly rounded quotient
      is the rounded numerator with the exponent lowered by 20\<close>
  "truediv_2_20 n = Double (round53 n) (- 20)"

definition py_round2 :: "double \<Rightarrow> rat" where
  \<comment> \<open>\<^verbatim>\<open>round(x, 2)\<close>: the exact value of \<open>x\<close> rounded to hundredths, ties to even; the
      result is the decimal that \<^verbatim>\<open>json.dumps\<close> prints for it\<close>
  "py_round2 d =
     (if 0 \<le> expo d then of_int (mant d * 2 ^ nat (expo d))
      else of_int (sgn (mant d) * rne_div (\<bar>mant d\<bar> * 100) (2 ^ nat (- expo d))) / 100)"

text \<open>Line 55: \<^verbatim>\<open>font_size = int(height * 0.05)\<close>.\<close>

definition font_size_of :: "int \<Rightarrow> int" where
  "font_size_of height = py_int (double_mul (double_of_int height) lit_0_05)"

subsection \<open>The outside world\<close>

text \<open>
  What the process does that can be seen from outside, in the order it happens: every
  record printed (with its stream) and every call into \<^verbatim>\<open>os.path\<close> or Pillow, with
  the arguments the program passes. The answer of \<^verbatim>\<open>os.path.exists\<close> is part of its
  event; the box that \<^verbatim>\<open>draw.textbbox\<close> returns and the size that
  \<^verbatim>\<open>os.path.getsize\<close> returns are events of their own, right after the call. The
  enhancement factors are recorded as the decimal literals of the source, 1.5 and 1.2.
\<close>

datatype stream = Stdout | Stderr

type_synonym rgba = "int \<times> int \<times> int \<times> int"
type_synonym bbox = "int \<times> int \<times> int \<times> int"

datatype event =
    Print stream json
  | PathExists string bool
  | ImageOpen string
  | Sharpness rat
  | Contrast rat
  | FilterEdgeEnhance
  | FilterSmooth
  | NewDraw
  | Truetype string int
  | LoadDefault
  | TextBBox "int \<times> int" string
  | Measured bbox
  | DrawText "int \<times> int" string rgba
  | Save string int
  | GetSize string
  | FileSize int

record 'fs world =
  trace :: "event list"
  files :: 'fs

text \<open>
  The libraries, as far as the program uses them. \<open>'fs\<close> is the state of the file
  system, \<open>'img\<close> an image object, \<open>'font\<close> a font object. Every call may raise, apart
  from \<^verbatim>\<open>os.path.exists\<close> (which answers \<open>False\<close> instead) and the attribute
  \<^verbatim>\<open>img.size\<close>. \<^verbatim>\<open>ImageEnhance.Sharpness(img).enhance(f)\<close> and
  \<^verbatim>\<open>ImageEnhance.Contrast(img).enhance(f)\<close> are one operation each. Saving is the
  only operation that changes the file system, and it may do so even when it raises.
  \<^verbatim>\<open>print\<close> and \<^verbatim>\<open>json.dumps\<close> are taken to succeed on the records of this program.

  Modelled from the spec: \<^verbatim>\<open>ImageFont.load_default\<close> is Pillow code; the
  specification describes it as the built-in font that needs no external file and
  cannot fail, so it is a font rather than a call that may raise.
\<close>

record ('fs, 'img, 'font) libs =
  os_path_exists :: "'fs \<Rightarrow> string \<Rightarrow> bool"
  os_path_getsize :: "'fs \<Rightarrow> string \<Rightarrow> pyexn + int"
  Image_open :: "'fs \<Rightarrow> string \<Rightarrow> pyexn + 'img"
  img_size :: "'img \<Rightarrow> int \<times> int"
  Sharpness_enhance :: "'img \<Rightarrow> rat \<Rightarrow> pyexn + 'img"
  Contrast_enhance :: "'img \<Rightarrow> rat \<Rightarrow> pyexn + 'img"
  filter_EDGE_ENHANCE :: "'img \<Rightarrow> pyexn + 'img"
  filter_SMOOTH :: "'img \<Rightarrow> pyexn + 'img"
  ImageDraw_Draw :: "'img \<Rightarrow> pyexn + unit"
  ImageFont_truetype :: "string \<Rightarrow> int \<Rightarrow> pyexn + 'font"
  ImageFont_load_default :: "'font"
  draw_textbbox :: "'img \<Rightarrow> int \<times> int \<Rightarrow> string \<Rightarrow> 'font \<Rightarrow> pyexn + bbox"
  draw_text :: "'img \<Rightarrow> int \<times> int \<Rightarrow> string \<Rightarrow> 'font \<Rightarrow> rgba \<Rightarrow> pyexn + 'img"
  img_save :: "'fs \<Rightarrow> 'img \<Rightarrow> string \<Rightarrow> int \<Rightarrow> (pyexn + unit) \<times> 'fs"

subsection \<open>Statements that may raise\<close>

text \<open>
  A statement takes the world and gives back either an exception or a value, with the
  world as it is then. \<open>py_bind\<close> is sequencing (an exception skips the rest),
  \<open>py_try\<close> is \<^verbatim>\<open>try: ... except: ...\<close> with a bare \<^verbatim>\<open>except\<close>.
\<close>

type_synonym ('fs, 'a) py = "'fs world \<Rightarrow> (pyexn + 'a) \<times> 'fs world"

definition py_return :: "'a \<Rightarrow> ('fs, 'a) py" where
  "py_return a = (\<lambda>w. (Inr a, w))"

definition py_raise :: "pyexn \<Rightarrow> ('fs, 'a) py" where
  "py_raise e = (\<lambda>w. (Inl e, w))"

definition py_bind :: "('fs, 'a) py \<Rightarrow> ('a \<Rightarrow> ('fs, 'b) py) \<Rightarrow> ('fs, 'b) py" where
  "py_bind m f = (\<lambda>w. case m w of (Inl e, w') \<Rightarrow> (Inl e, w') | (Inr a, w') \<Rightarrow> f a w')"

definition py_try :: "('fs, 'a) py \<Rightarrow> ('fs, 'a) py \<Rightarrow> ('fs, 'a) py" where
  "py_try m h = (\<lambda>w. case m w of (Inl e, w') \<Rightarrow> h w' | (Inr a, w') \<Rightarrow> (Inr a, w'))"

definition log :: "event \<Rightarrow> ('fs, unit) py" where
  "log ev = (\<lambda>w. (Inr (), w\<lparr>trace := trace w @ [ev]\<rparr>))"

definition py_print :: "stream \<Rightarrow> json \<Rightarrow> ('fs, unit) py" where
  \<comment> \<open>\<^verbatim>\<open>print(json.dumps(record), file=stream)\<close>\<close>
  "py_print out rec = log (Print out rec)"

definition call :: "event \<Rightarrow> (pyexn + 'a) \<Rightarrow> ('fs, 'a) py" where
  \<comment> \<open>a library call that does not touch the file system: it is observed, then returns or raises\<close>
  "call ev r = py_bind (log ev) (\<lambda>_ w. (r, w))"

fun py_for :: "'a list \<Rightarrow> ('a \<Rightarrow> 's \<Rightarrow> ('fs, 's) py) \<Rightarrow> 's \<Rightarrow> ('fs, 's) py" where
  \<comment> \<open>\<^verbatim>\<open>for x in xs: body\<close>, the body updating \<open>s\<close>\<close>
  "py_for [] body s = py_return s"
| "py_for (x # xs) body s = py_bind (body x s) (py_for xs body)"

subsection \<open>The library calls of the program\<close>

definition with_files :: "('fs \<Rightarrow> ('fs, 'a) py) \<Rightarrow> ('fs, 'a) py" where
  "with_files f = (\<lambda>w. f (files w) w)"

definition exists_call :: "('fs, 'img, 'font) libs \<Rightarrow> string \<Rightarrow> ('fs, bool) py" where
  "exists_call L p =
     with_files (\<lambda>fs. let b = os_path_exists L fs p
                      in py_bind (log (PathExists p b)) (\<lambda>_. py_return b))"

definition open_call :: "('fs, 'img, 'font) libs \<Rightarrow> string \<Rightarrow> ('fs, 'img) py" where
  "open_call L p = with_files (\<lambda>fs. call (ImageOpen p) (Image_open L fs p))"

definition textbbox_call ::
  "('fs, 'img, 'font) libs \<Rightarrow> 'img \<Rightarrow> int \<times> int \<Rightarrow> string \<Rightarrow> 'font \<Rightarrow> ('fs, bbox) py" where
  "textbbox_call L img pos txt font =
     py_bind (call (TextBBox pos txt) (draw_textbbox L img pos txt font))
       (\<lambda>b. py_bind (log (Measured b)) (\<lambda>_. py_return b))"

definition text_call ::
  "('fs, 'img, 'font) libs \<Rightarrow> 'img \<Rightarrow> int \<times> int \<Rightarrow> string \<Rightarrow> 'font \<Rightarrow> rgba \<Rightarrow> ('fs, 'img) py" where
  \<comment> \<open>\<^verbatim>\<open>draw.text(pos, text, font=font, fill=fill)\<close> paints on the image the drawing
      context was made for\<close>
  "text_call L img pos txt font fill = call (DrawText pos txt fill) (draw_text L img pos txt font fill)"

definition save_call :: "('fs, 'img, 'font) libs \<Rightarrow> 'img \<Rightarrow> string \<Rightarrow> int \<Rightarrow> ('fs, unit) py" where
  "save_call L img p quality =
     py_bind (log (Save p quality))
       (\<lambda>_ w. case img_save L (files w) img p quality of (r, fs') \<Rightarrow> (r, w\<lparr>files := fs'\<rparr>))"

definition getsize_call :: "('fs, 'img, 'font) libs \<Rightarrow> string \<Rightarrow> ('fs, int) py" where
  "getsize_call L p =
     with_files (\<lambda>fs. py_bind (call (GetSize p) (os_path_getsize L fs p))
                        (\<lambda>n. py_bind (log (FileSize n)) (\<lambda>_. py_return n)))"

subsection \<open>\<^verbatim>\<open>process_image\<close>\<close>

text \<open>Lines 57 to 66: the font, with its two nested bare \<^verbatim>\<open>except\<close> clauses.\<close>

definition load_font :: "('fs, 'img, 'font) libs \<Rightarrow> int \<Rightarrow> ('fs, 'font) py" where
  "load_font L font_size =
     py_try (call (Truetype ''arial.ttf'' font_size) (ImageFont_truetype L ''arial.ttf'' font_size))
       (py_try (call (Truetype ''Arial.ttf'' font_size) (ImageFont_truetype L ''Arial.ttf'' font_size))
          (py_bind (log LoadDefault) (\<lambda>_. py_return (ImageFont_load_default L))))"

text \<open>Lines 81 to 85: the shadow, two nested loops over \<^verbatim>\<open>range(-shadow_offset, shadow_offset + 1)\<close>.\<close>

definition draw_shadow ::
  "('fs, 'img, 'font) libs \<Rightarrow> 'font \<Rightarrow> string \<Rightarrow> int \<Rightarrow> int \<Rightarrow> int \<Rightarrow> 'img \<Rightarrow> ('fs, 'img) py" where
  "draw_shadow L font txt x y shadow_offset img =
     py_for (py_range (- shadow_offset) (shadow_offset + 1))
       (\<lambda>offset_x. py_for (py_range (- shadow_offset) (shadow_offset + 1))
          (\<lambda>offset_y img.
             if offset_x \<noteq> 0 \<or> offset_y \<noteq> 0
             then text_call L img (x + offset_x, y + offset_y) txt font (0, 0, 0, 255)
             else py_return img))
       img"

definition status_record :: "string \<Rightarrow> string \<Rightarrow> json" where
  "status_record st msg = JObject [(''status'', JString st), (''message'', JString msg)]"

definition error_record :: "string \<Rightarrow> string \<Rightarrow> json" where
  "error_record msg ty =
     JObject [(''status'', JString ''error''), (''message'', JString msg), (''error_type'', JString ty)]"

definition success_record :: "string \<Rightarrow> string \<Rightarrow> string \<Rightarrow> rat \<Rightarrow> json" where
  "success_record input_path output_path dims mb =
     JObject [(''status'', JString ''success''),
              (''message'', JString ''Image processed successfully''),
              (''details'', JObject [(''input_path'', JString input_path),
                                     (''output_path'', JString output_path),
                                     (''dimensions'', JString dims),
                                     (''file_size_mb'', JNumber mb)])]"

text \<open>Lines 18 to 110: the body of the \<^verbatim>\<open>try\<close>.\<close>

definition process_image_try ::
  "('fs, 'img, 'font) libs \<Rightarrow> string \<Rightarrow> string \<Rightarrow> ('fs, int) py" where
  "process_image_try L input_path output_path =
     py_bind (exists_call L input_path) (\<lambda>found.
     py_bind (if \<not> found
              then py_raise (FileNotFoundError (''Input image not found: '' @ input_path))
              else py_return ()) (\<lambda>_.
     py_bind (py_print Stdout (status_record ''loading'' ''Loading image...'')) (\<lambda>_.
     py_bind (open_call L input_path) (\<lambda>img.
     case img_size L img of (width, height) \<Rightarrow>
     py_bind (py_print Stdout (status_record ''info''
                (''Image loaded: '' @ str_int width @ ''x'' @ str_int height @ '' pixels''))) (\<lambda>_.
     py_bind (py_print Stdout (status_record ''processing'' ''Applying filters...'')) (\<lambda>_.
     py_bind (call (Sharpness (3 / 2)) (Sharpness_enhance L img (3 / 2))) (\<lambda>img.
     py_bind (call FilterEdgeEnhance (filter_EDGE_ENHANCE L img)) (\<lambda>img.
     py_bind (call (Contrast (6 / 5)) (Contrast_enhance L img (6 / 5))) (\<lambda>img.
     py_bind (call FilterSmooth (filter_SMOOTH L img)) (\<lambda>img.
     py_bind (py_print Stdout (status_record ''processing'' ''Adding text overlay...'')) (\<lambda>_.
     py_bind (call NewDraw (ImageDraw_Draw L img)) (\<lambda>_.
     let font_size = font_size_of height in
     py_bind (load_font L font_size) (\<lambda>font.
     let txt = ''SATORU GOJO'' in
     py_bind (textbbox_call L img (0, 0) txt font) (\<lambda>(bbox0, bbox1, bbox2, bbox3).
     let text_width = bbox2 - bbox0;
         text_height = bbox3 - bbox1;
         x = (width - text_width) div 2;
         y = (height - text_height) div 2;
         shadow_offset = max 2 (font_size div 30) in
     py_bind (draw_shadow L font txt x y shadow_offset img) (\<lambda>img.
     py_bind (text_call L img (x, y) txt font (200, 230, 255, 255)) (\<lambda>img.
     py_bind (py_print Stdout (status_record ''saving'' ''Saving processed image...'')) (\<lambda>_.
     py_bind (save_call L img output_path 95) (\<lambda>_.
     py_bind (getsize_call L output_path) (\<lambda>file_size.
     let file_size_mb = truediv_2_20 file_size in
     py_bind (py_print Stdout (success_record input_path output_path
                (str_int width @ ''x'' @ str_int height) (py_round2 file_size_mb))) (\<lambda>_.
     py_return 0))))))))))))))))))))"

text \<open>Lines 112 to 128: the two handlers, in the order they are written.\<close>

definition process_image ::
  "('fs, 'img, 'font) libs \<Rightarrow> string \<Rightarrow> string \<Rightarrow> ('fs, int) py" where
  "process_image L input_path output_path =
     (\<lambda>w. case process_image_try L input_path output_path w of
        (Inr code, w') \<Rightarrow> (Inr code, w')
      | (Inl e, w') \<Rightarrow>
          if isinstance e ''FileNotFoundError'' then
            py_bind (py_print Stderr (error_record (exn_str e) ''FileNotFoundError''))
              (\<lambda>_. py_return 1) w'
          else if isinstance e ''Exception'' then
            py_bind (py_print Stderr
                       (error_record (''Processing failed: '' @ exn_str e) (exn_name e)))
              (\<lambda>_. py_return 2) w'
          else (Inl e, w'))"

subsection \<open>\<^verbatim>\<open>main\<close>\<close>

text \<open>
  How the process ends: \<^verbatim>\<open>sys.exit(code)\<close>, or an exception that no handler caught
  (one that is not an \<^verbatim>\<open>Exception\<close>).
\<close>

datatype outcome = Exit int | Uncaught pyexn

definition main :: "('fs, 'img, 'font) libs \<Rightarrow> string list \<Rightarrow> 'fs world \<Rightarrow> outcome \<times> 'fs world" where
  "main L argv =
     (\<lambda>w. if length argv \<noteq> 3 then
             (case py_print Stderr
                     (error_record ''Usage: image_processor <input_path> <output_path>''
                        ''InvalidArguments'') w
              of (_, w') \<Rightarrow> (Exit 1, w'))
           else
             let input_path = argv ! 1; output_path = argv ! 2
             in case process_image L input_path output_path w of
                  (Inr exit_code, w') \<Rightarrow> (Exit exit_code, w')
                | (Inl e, w') \<Rightarrow> (Uncaught e, w'))"

text \<open>One invocation: the process starts with nothing observed yet.\<close>

definition run :: "('fs, 'img, 'font) libs \<Rightarrow> 'fs \<Rightarrow> string list \<Rightarrow> outcome \<times> 'fs world" where
  "run L fs argv = main L argv \<lparr>trace = [], files = fs\<rparr>"

subsection \<open>Reading a trace\<close>

text \<open>What was written to a stream, the text drawn, and the boxes measured, in order.\<close>

fun printed :: "stream \<Rightarrow> event list \<Rightarrow> json list" where
  "printed out [] = []"
| "printed out (Print out' j # evs) = (if out' = out then j # printed out evs else printed out evs)"
| "printed out (_ # evs) = printed out evs"

fun drawn :: "event list \<Rightarrow> ((int \<times> int) \<times> string \<times> rgba) list" where
  "drawn [] = []"
| "drawn (DrawText pos txt fill # evs) = (pos, txt, fill) # drawn evs"
| "drawn (_ # evs) = drawn evs"

fun measured :: "event list \<Rightarrow> bbox list" where
  "measured [] = []"
| "measured (Measured bb # evs) = bb # measured evs"
| "measured (_ # evs) = measured evs"

fun is_print :: "event \<Rightarrow> bool" where
  "is_print (Print _ _) = True"
| "is_print _ = False"

definition observe :: "'fs world \<Rightarrow> event list \<Rightarrow> 'fs world" where
  "observe w evs = w\<lparr>trace := trace w @ evs\<rparr>"

text \<open>The font the fallback chain ends with, and the calls it makes on the way.\<close>

definition chosen_font :: "('fs, 'img, 'font) libs \<Rightarrow> int \<Rightarrow> 'font" where
  "chosen_font L n =
     (case ImageFont_truetype L ''arial.ttf'' n of
        Inr f \<Rightarrow> f
      | Inl _ \<Rightarrow> (case ImageFont_truetype L ''Arial.ttf'' n of
                    Inr f \<Rightarrow> f
                  | Inl _ \<Rightarrow> ImageFont_load_default L))"

definition font_events :: "('fs, 'img, 'font) libs \<Rightarrow> int \<Rightarrow> event list" where
  "font_events L n =
     (case ImageFont_truetype L ''arial.ttf'' n of
        Inr _ \<Rightarrow> [Truetype ''arial.ttf'' n]
      | Inl _ \<Rightarrow> (case ImageFont_truetype L ''Arial.ttf'' n of
                    Inr _ \<Rightarrow> [Truetype ''arial.ttf'' n, Truetype ''Arial.ttf'' n]
                  | Inl _ \<Rightarrow> [Truetype ''arial.ttf'' n, Truetype ''Arial.ttf'' n, LoadDefault]))"

text \<open>The offsets of the shadow, in the order the two loops visit them.\<close>

definition shadow_offsets :: "int \<Rightarrow> (int \<times> int) list" where
  "shadow_offsets s = filter (\<lambda>(dx, dy). dx \<noteq> 0 \<or> dy \<noteq> 0) (List.product [- s..s] [- s..s])"

text \<open>
  The trace of a run in which nothing raises, for an image decoded as \<open>W\<close> by \<open>H\<close>, a
  measured box \<open>bb\<close> and an output file of \<open>n\<close> bytes.
\<close>

definition ok_trace ::
  "('fs, 'img, 'font) libs \<Rightarrow> string \<Rightarrow> string \<Rightarrow> int \<Rightarrow> int \<Rightarrow> bbox \<Rightarrow> int \<Rightarrow> event list" where
  "ok_trace L inp out W H bb n =
     (case bb of (l, t, r, b) \<Rightarrow>
      [PathExists inp True,
       Print Stdout (status_record ''loading'' ''Loading image...''),
       ImageOpen inp,
       Print Stdout (status_record ''info''
                       (''Image loaded: '' @ str_int W @ ''x'' @ str_int H @ '' pixels'')),
       Print Stdout (status_record ''processing'' ''Applying filters...''),
       Sharpness (3 / 2), FilterEdgeEnhance, Contrast (6 / 5), FilterSmooth,
       Print Stdout (status_record ''processing'' ''Adding text overlay...''),
       NewDraw]
      @ font_events L (font_size_of H)
      @ [TextBBox (0, 0) ''SATORU GOJO'', Measured bb]
      @ map (\<lambda>(dx, dy). DrawText ((W - (r - l)) div 2 + dx, (H - (b - t)) div 2 + dy)
                             ''SATORU GOJO'' (0, 0, 0, 255))
            (shadow_offsets (max 2 (font_size_of H div 30)))
      @ [DrawText ((W - (r - l)) div 2, (H - (b - t)) div 2) ''SATORU GOJO'' (200, 230, 255, 255),
         Print Stdout (status_record ''saving'' ''Saving processed image...''),
         Save out 95, GetSize out, FileSize n,
         Print Stdout (success_record inp out (str_int W @ ''x'' @ str_int H)
                         (py_round2 (truediv_2_20 n)))])"

subsection \<open>A small installation to run the program on\<close>

text \<open>
  Two files exist, \<^verbatim>\<open>in.png\<close> (a 200 by 100 image) and \<^verbatim>\<open>notes.txt\<close> (not an image).
  Neither Arial file is installed, the watermark measures 66 by 8 pixels in the default
  font, and only \<^verbatim>\<open>out.jpg\<close> can be written: any other output path names a directory
  that does not exist, and \<^verbatim>\<open>open\<close> inside \<^verbatim>\<open>img.save\<close> raises
  \<^verbatim>\<open>FileNotFoundError\<close> for it.
\<close>

definition demo_fs :: "(string \<times> int) list" where
  "demo_fs = [(''in.png'', 4096), (''notes.txt'', 12)]"

definition demo_libs :: "((string \<times> int) list, int \<times> int, string) libs" where
  "demo_libs =
     \<lparr>os_path_exists = (\<lambda>fs p. map_of fs p \<noteq> None),
      os_path_getsize = (\<lambda>fs p.
         case map_of fs p of
           None \<Rightarrow> Inl (FileNotFoundError (''[Errno 2] No such file or directory: '' @ p))
         | Some n \<Rightarrow> Inr n),
      Image_open = (\<lambda>fs p.
         if p = ''in.png'' then Inr (200, 100)
         else Inl (PyExn ''UnidentifiedImageError'' [''OSError'', ''Exception'', ''BaseException'']
                     (''cannot identify image file '' @ p))),
      img_size = (\<lambda>img. img),
      Sharpness_enhance = (\<lambda>img f. Inr img),
      Contrast_enhance = (\<lambda>img f. Inr img),
      filter_EDGE_ENHANCE = (\<lambda>img. Inr img),
      filter_SMOOTH = (\<lambda>img. Inr img),
      ImageDraw_Draw = (\<lambda>img. Inr ()),
      ImageFont_truetype = (\<lambda>name size.
         Inl (PyExn ''OSError'' [''Exception'', ''BaseException''] ''cannot open resource'')),
      ImageFont_load_default = ''default'',
      draw_textbbox = (\<lambda>img pos txt font. Inr (0, 3, 66, 11)),
      draw_text = (\<lambda>img pos txt font fill. Inr img),
      img_save = (\<lambda>fs img p quality.
         if p = ''out.jpg'' then (Inr (), (p, 1234567) # fs)
         else (Inl (FileNotFoundError (''[Errno 2] No such file or directory: '' @ p)), fs))\<rparr>"

definition demo_argv :: "string list" where
  "demo_argv = [''image_processor'', ''in.png'', ''out.jpg'']"

definition demo_start :: "(string \<times> int) list world" where
  "demo_start = \<lparr>trace = [], files = demo_fs\<rparr>"

definition demo_final :: "(string \<times> int) list world" where
  "demo_final =
     \<lparr>trace = ok_trace demo_libs ''in.png'' ''out.jpg'' 200 100 (0, 3, 66, 11) 1234567,
      files = (''out.jpg'', 1234567) # demo_fs\<rparr>"

text \<open>The same installation with \<^verbatim>\<open>arial.ttf\<close> present, and with only \<^verbatim>\<open>Arial.ttf\<close> present.\<close>

definition arial_libs :: "((string \<times> int) list, int \<times> int, string) libs" where
  "arial_libs = demo_libs\<lparr>ImageFont_truetype := (\<lambda>name size. Inr name)\<rparr>"

definition Arial_libs :: "((string \<times> int) list, int \<times> int, string) libs" where
  "Arial_libs = demo_libs\<lparr>ImageFont_truetype := (\<lambda>name size.
      if name = ''Arial.ttf'' then Inr name
      else Inl (PyExn ''OSError'' [''Exception'', ''BaseException''] ''cannot open resource''))\<rparr>"

section \<open>Properties\<close>

subsection \<open>Arithmetic of the font size\<close>

declare bitlen.simps [simp del]

lemma bitlen_le: "n < 2 ^ k \<Longrightarrow> bitlen n \<le> k"
proof (induction k arbitrary: n)
  case 0
  then show ?case by (simp add: bitlen.simps)
next
  case (Suc k)
  show ?case
  proof (cases "n = 0")
    case True
    then show ?thesis by (simp add: bitlen.simps)
  next
    case False
    from Suc.prems have "n div 2 < 2 ^ k" by simp
    from Suc.IH [OF this] False show ?thesis by (subst bitlen.simps) simp
  qed
qed

lemma rne_div_lower: "a div b \<le> rne_div a b"
  by (simp add: rne_div_def Let_def)

lemma rne_div_upper: "rne_div a b \<le> a div b + 1"
  by (simp add: rne_div_def Let_def)

lemma rne_div_one [simp]: "rne_div a 1 = a"
  by (simp add: rne_div_def)

lemma round53_small:
  assumes "0 \<le> m" "m < 2 ^ 53"
  shows "round53 m = m"
proof -
  have "nat \<bar>m\<bar> < 2 ^ 53" using assms by (simp add: nat_less_iff)
  then have "bitlen (nat \<bar>m\<bar>) \<le> 53" by (rule bitlen_le)
  then have "bitlen (nat \<bar>m\<bar>) - 53 = 0" by simp
  then have "round53 m = sgn m * m" using assms by (simp add: round53_def)
  then show ?thesis using assms by (simp add: sgn_if)
qed

lemma round53_bounds:
  assumes m: "0 < m" "m < 2 ^ 83"
    and lo: "k * 2 ^ 56 \<le> m" and hi: "m + 2 ^ 30 < (k + 1) * 2 ^ 56"
  shows "k * 2 ^ 56 \<le> round53 m \<and> round53 m < (k + 1) * 2 ^ 56"
proof -
  define s where "s = bitlen (nat \<bar>m\<bar>) - 53"
  define p :: int where "p = 2 ^ s"
  have "nat \<bar>m\<bar> < 2 ^ 83" using m by (simp add: nat_less_iff)
  then have "bitlen (nat \<bar>m\<bar>) \<le> 83" by (rule bitlen_le)
  then have s: "s \<le> 30" by (simp add: s_def)
  have r: "round53 m = rne_div m p * p"
    using m by (simp add: round53_def s_def p_def sgn_if Let_def)
  have pos: "0 < p" by (simp add: p_def)
  have "(2::int) ^ 56 = 2 ^ (56 - s) * 2 ^ s"
    using s by (simp add: power_add [symmetric])
  then have k56: "k * 2 ^ 56 = (k * 2 ^ (56 - s)) * p" by (simp add: p_def)
  have "(k * 2 ^ (56 - s)) * p \<le> m" using lo unfolding k56 .
  from zdiv_mono1 [OF this pos] have "k * 2 ^ (56 - s) \<le> m div p" using pos by simp
  then have "k * 2 ^ (56 - s) \<le> rne_div m p" using rne_div_lower [of m p] by simp
  then have "(k * 2 ^ (56 - s)) * p \<le> rne_div m p * p" using pos by simp
  then have low: "k * 2 ^ 56 \<le> round53 m" unfolding r k56 .
  have "p \<le> 2 ^ 30" unfolding p_def using s by (intro power_increasing) simp_all
  moreover have "m div p * p \<le> m" using pos by (simp add: div_mult2_eq minus_mod_eq_div_mult [symmetric])
  moreover have "rne_div m p * p \<le> (m div p + 1) * p"
    using rne_div_upper [of m p] pos by simp
  ultimately have "round53 m \<le> m + 2 ^ 30" by (simp add: r algebra_simps)
  with hi low show ?thesis by simp
qed

lemma font_size_of_eq:
  assumes "0 \<le> H" "H < 2 ^ 31"
  shows "font_size_of H = H div 20"
proof (cases "H = 0")
  case True
  then show ?thesis
    by (simp add: font_size_of_def py_int_def double_mul_def double_of_int_def lit_0_05_def
          round53_def)
next
  case False
  define k where "k = H div 20"
  define m where "m = H * 3602879701896397"
  have H: "0 < H" using assms False by simp
  have hk: "20 * k \<le> H" "H < 20 * k + 20" by (simp_all add: k_def) 
  have "round53 H = H" using assms by (intro round53_small) simp_all
  then have fs: "font_size_of H = sgn (round53 m) * (\<bar>round53 m\<bar> div 2 ^ 56)"
    by (simp add: font_size_of_def py_int_def double_mul_def double_of_int_def lit_0_05_def m_def)
  have m0: "0 < m" using H by (simp add: m_def)
  have m1: "m < 2 ^ 83" using assms by (simp add: m_def)
  have lo: "k * 2 ^ 56 \<le> m" using hk H by (simp add: m_def)
  have hi: "m + 2 ^ 30 < (k + 1) * 2 ^ 56" using hk assms by (simp add: m_def)
  from round53_bounds [OF m0 m1 lo hi]
  have b: "k * 2 ^ 56 \<le> round53 m" "round53 m < (k + 1) * 2 ^ 56" by simp_all
  have k0: "0 \<le> k" using assms by (simp add: k_def)
  then have "0 \<le> k * 2 ^ 56" by simp
  with b(1) have r0: "0 \<le> round53 m" by linarith
  have "round53 m div 2 ^ 56 = k"
    using b by (intro int_div_pos_eq [of _ _ _ "round53 m - 2 ^ 56 * k"]) simp_all
  then have "sgn (round53 m) * (\<bar>round53 m\<bar> div 2 ^ 56) = k"
    using r0 by (cases "round53 m = 0") (simp_all add: sgn_if)
  then show ?thesis by (simp add: fs k_def)
qed

subsection \<open>Statements and their traces\<close>

lemma observe_simps [simp]:
  "trace (observe w evs) = trace w @ evs" "files (observe w evs) = files w"
  "observe (observe w a) b = observe w (a @ b)" "observe w [] = w"
  by (simp_all add: observe_def)

lemma py_bind_Inr:
  "py_bind m f w = (Inr b, w') \<longleftrightarrow> (\<exists>a w1. m w = (Inr a, w1) \<and> f a w1 = (Inr b, w'))"
  by (auto simp: py_bind_def split: prod.splits sum.splits)

lemma py_return_eq [simp]: "py_return a w = (r, w') \<longleftrightarrow> r = Inr a \<and> w' = w"
  by (auto simp: py_return_def)

lemma py_raise_eq [simp]: "py_raise e w = (r, w') \<longleftrightarrow> r = Inl e \<and> w' = w"
  by (auto simp: py_raise_def)

lemma log_eq [simp]: "log ev w = (Inr (), observe w [ev])"
  by (simp add: log_def more_def)

lemma py_print_eq [simp]: "py_print out j w = (Inr (), observe w [Print out j])"
  by (simp add: py_print_def)

lemma call_eq [simp]: "call ev r w = (r, observe w [ev])"
  by (simp add: call_def py_bind_def)

lemma load_font_eq: "load_font L n w = (Inr (chosen_font L n), observe w (font_events L n))"
  by (simp add: load_font_def py_try_def py_bind_def chosen_font_def font_events_def
           split: sum.splits)

lemma exists_call_eq [simp]:
  "exists_call L p w = (Inr (os_path_exists L (files w) p), observe w [PathExists p (os_path_exists L (files w) p)])"
  by (simp add: exists_call_def with_files_def py_bind_def Let_def)

lemma open_call_eq [simp]: "open_call L p w = (Image_open L (files w) p, observe w [ImageOpen p])"
  by (simp add: open_call_def with_files_def)

lemma textbbox_call_Inr:
  "textbbox_call L img pos txt font w = (Inr b, w') \<longleftrightarrow>
     draw_textbbox L img pos txt font = Inr b \<and> w' = observe w [TextBBox pos txt, Measured b]"
  by (auto simp: textbbox_call_def py_bind_def split: sum.splits)

lemma text_call_eq [simp]:
  "text_call L img pos txt font fill w = (draw_text L img pos txt font fill, observe w [DrawText pos txt fill])"
  by (simp add: text_call_def)

lemma save_call_eq:
  "save_call L img p q w = (fst (img_save L (files w) img p q),
      (observe w [Save p q])\<lparr>files := snd (img_save L (files w) img p q)\<rparr>)"
  by (simp add: save_call_def py_bind_def split: prod.splits)

lemma getsize_call_Inr:
  "getsize_call L p w = (Inr n, w') \<longleftrightarrow>
     os_path_getsize L (files w) p = Inr n \<and> w' = observe w [GetSize p, FileSize n]"
  by (auto simp: getsize_call_def with_files_def py_bind_def split: sum.splits)


lemma py_for_trace:
  assumes step: "\<And>x s w s' w'. body x s w = (Inr s', w') \<Longrightarrow> w' = observe w (ev x)"
    and run: "py_for xs body s w = (Inr s', w')"
  shows "w' = observe w (concat (map ev xs))"
  using run
proof (induction xs arbitrary: s w)
  case Nil
  then show ?case by simp
next
  case (Cons a xs)
  from Cons.prems obtain s1 w1 where
    1: "body a s w = (Inr s1, w1)" and 2: "py_for xs body s1 w1 = (Inr s', w')"
    by (auto simp: py_bind_Inr)
  show ?case
    using step [OF 1] Cons.IH [OF 2] by simp
qed

lemma shadow_row:
  "concat (map (\<lambda>oy. if ox \<noteq> 0 \<or> oy \<noteq> 0 then [f (ox, oy)] else []) ys) =
   map f (filter (\<lambda>(dx, dy). dx \<noteq> 0 \<or> dy \<noteq> (0::int)) (map (Pair (ox::int)) ys))"
  by (induction ys) auto

lemma product_rows:
  "concat (map (\<lambda>ox. map f (filter P (map (Pair ox) ys))) xs) = map f (filter P (List.product xs ys))"
  by (induction xs) simp_all

lemma shadow_rows:
  "concat (map (\<lambda>ox. concat (map (\<lambda>oy. if ox \<noteq> 0 \<or> oy \<noteq> 0 then [f (ox, oy)] else []) ys)) xs) =
   map f (filter (\<lambda>(dx, dy). dx \<noteq> 0 \<or> dy \<noteq> (0::int)) (List.product (xs::int list) ys))"
  by (simp only: shadow_row product_rows)

lemma draw_shadow_Inr:
  assumes "draw_shadow L font txt x y s img w = (Inr img', w')"
  shows "w' = observe w (map (\<lambda>(dx, dy). DrawText (x + dx, y + dy) txt (0, 0, 0, 255))
                       (shadow_offsets s))"
proof -
  let ?f = "\<lambda>(dx, dy). DrawText (x + dx, y + dy) txt (0, 0, 0, 255)"
  let ?inner = "\<lambda>ox oy im. if ox \<noteq> 0 \<or> oy \<noteq> 0
                   then text_call L im (x + ox, y + oy) txt font (0, 0, 0, 255)
                   else py_return im"
  have inner: "w2 = observe w1 (if ox \<noteq> 0 \<or> oy \<noteq> 0 then [?f (ox, oy)] else [])"
    if "?inner ox oy im w1 = (Inr im', w2)" for ox oy im w1 im' w2
    using that by (auto split: if_splits)
  have row: "w2 = observe w1 (concat (map (\<lambda>oy. if ox \<noteq> 0 \<or> oy \<noteq> 0 then [?f (ox, oy)] else []) ys))"
    if "py_for ys (?inner ox) im w1 = (Inr im', w2)" for ox ys im w1 im' w2
    using that by (rule py_for_trace [rotated]) (rule inner)
  have "w' = observe w (concat (map (\<lambda>ox. concat (map (\<lambda>oy. if ox \<noteq> 0 \<or> oy \<noteq> 0 then [?f (ox, oy)] else [])
                 [- s..s])) [- s..s]))"
    using assms unfolding draw_shadow_def py_range_def
    by (simp only: add_diff_cancel_right') (rule py_for_trace [rotated], assumption, rule row)
  then show ?thesis
    by (simp only: shadow_rows shadow_offsets_def)
qed

lemma process_image_try_okE:
  assumes "process_image_try L inp out w = (Inr code, w')"
  obtains img0 img bb img' n where
    "os_path_exists L (files w) inp"
    "Image_open L (files w) inp = Inr img0"
    "draw_textbbox L img (0, 0) ''SATORU GOJO''
       (chosen_font L (font_size_of (snd (img_size L img0)))) = Inr bb"
    "img_save L (files w) img' out 95 = (Inr (), files w')"
    "os_path_getsize L (files w') out = Inr n"
    "code = 0"
    "trace w' = trace w @ ok_trace L inp out (fst (img_size L img0)) (snd (img_size L img0)) bb n"
proof -
  from assms show thesis
    unfolding process_image_try_def
    apply (clarsimp simp: py_bind_Inr load_font_eq textbbox_call_Inr getsize_call_Inr save_call_eq
       Let_def split_def split: if_splits)
    apply (drule draw_shadow_Inr)
    subgoal for img0 i1 i2 i3 i4 l t r b i5 w1 i6 n
      apply (rule that [of img0 i4 "(l, t, r, b)" i6 n])
            apply (simp_all add: ok_trace_def split_def prod_eq_iff)
      done
    done
qed

lemma process_image_try_ok:
  assumes "process_image_try L inp out w = (Inr code, w')"
  shows "\<exists>img0 W H img bb img' n.
           os_path_exists L (files w) inp \<and> Image_open L (files w) inp = Inr img0 \<and>
           img_size L img0 = (W, H) \<and>
           draw_textbbox L img (0, 0) ''SATORU GOJO'' (chosen_font L (font_size_of H)) = Inr bb \<and>
           img_save L (files w) img' out 95 = (Inr (), files w') \<and>
           os_path_getsize L (files w') out = Inr n \<and>
           code = 0 \<and> trace w' = trace w @ ok_trace L inp out W H bb n"
proof -
  from assms obtain img0 img bb img' n where
    "os_path_exists L (files w) inp"
    "Image_open L (files w) inp = Inr img0"
    "draw_textbbox L img (0, 0) ''SATORU GOJO''
       (chosen_font L (font_size_of (snd (img_size L img0)))) = Inr bb"
    "img_save L (files w) img' out 95 = (Inr (), files w')"
    "os_path_getsize L (files w') out = Inr n"
    "code = 0"
    "trace w' = trace w @ ok_trace L inp out (fst (img_size L img0)) (snd (img_size L img0)) bb n"
    by (rule process_image_try_okE)
  moreover have "img_size L img0 = (fst (img_size L img0), snd (img_size L img0))" by simp
  ultimately show ?thesis by blast
qed

lemma process_image_Inr:
  assumes "process_image L inp out w = (Inr code, w')"
  shows "process_image_try L inp out w = (Inr code, w') \<or> code = 1 \<or> code = 2"
  using assms
  by (auto simp: process_image_def py_bind_def py_return_def split: prod.splits sum.splits if_splits)

lemma run_ok:
  assumes "run L fs [prog, inp, out] = (Exit 0, w')"
  shows "\<exists>img0 W H img bb img' n.
           os_path_exists L fs inp \<and> Image_open L fs inp = Inr img0 \<and>
           img_size L img0 = (W, H) \<and>
           draw_textbbox L img (0, 0) ''SATORU GOJO'' (chosen_font L (font_size_of H)) = Inr bb \<and>
           img_save L fs img' out 95 = (Inr (), files w') \<and>
           os_path_getsize L (files w') out = Inr n \<and>
           trace w' = ok_trace L inp out W H bb n"
proof -
  let ?w = "\<lparr>trace = [], files = fs\<rparr>"
  from assms have "process_image L inp out ?w = (Inr 0, w')"
    by (auto simp: run_def main_def split: prod.splits sum.splits)
  with process_image_Inr [of L inp out ?w 0 w']
  have "process_image_try L inp out ?w = (Inr 0, w')" by simp
  from process_image_try_ok [OF this] show ?thesis by simp
qed

lemma run_missing:
  assumes "\<not> os_path_exists L fs inp"
  shows "run L fs [prog, inp, out] =
           (Exit 1, \<lparr>trace = [PathExists inp False,
                               Print Stderr (error_record (''Input image not found: '' @ inp)
                                               ''FileNotFoundError'')],
                      files = fs\<rparr>)"
  using assms
  by (simp add: run_def main_def process_image_def process_image_try_def py_bind_def
        py_raise_def py_return_def isinstance_def FileNotFoundError_def observe_def)

lemma run_usage:
  assumes "length argv \<noteq> 3"
  shows "run L fs argv =
           (Exit 1, \<lparr>trace = [Print Stderr
                                 (error_record ''Usage: image_processor <input_path> <output_path>''
                                    ''InvalidArguments'')],
                      files = fs\<rparr>)"
  using assms by (simp add: run_def main_def observe_def)


lemma demo_font_size: "font_size_of 100 = 5"
  by (simp add: font_size_of_def py_int_def double_mul_def double_of_int_def lit_0_05_def
        round53_def rne_div_def Let_def bitlen.simps)

lemma demo_run_ok:
  "run demo_libs demo_fs demo_argv =
     (Exit 0, \<lparr>trace = ok_trace demo_libs ''in.png'' ''out.jpg'' 200 100 (0, 3, 66, 11) 1234567,
                files = (''out.jpg'', 1234567) # demo_fs\<rparr>)"
  by (simp add: run_def main_def process_image_def process_image_try_def py_bind_def
        load_font_eq textbbox_call_def getsize_call_def with_files_def save_call_def
        draw_shadow_def py_range_def demo_font_size upto.simps py_return_def py_raise_def
        demo_libs_def demo_fs_def demo_argv_def ok_trace_def font_events_def chosen_font_def
        shadow_offsets_def observe_def Let_def)

subsection \<open>Reading the trace of a run\<close>

lemma printed_append [simp]: "printed out (a @ b) = printed out a @ printed out b"
  by (induction out a rule: printed.induct) simp_all

lemma drawn_append [simp]: "drawn (a @ b) = drawn a @ drawn b"
  by (induction a rule: drawn.induct) simp_all

lemma measured_append [simp]: "measured (a @ b) = measured a @ measured b"
  by (induction a rule: measured.induct) simp_all

lemma font_events_quiet [simp]:
  "printed out (font_events L n) = []" "drawn (font_events L n) = []"
  "measured (font_events L n) = []" "list_all (\<lambda>ev. \<not> is_print ev) (font_events L n)"
  by (simp_all add: font_events_def split: sum.splits)

lemma draws_quiet [simp]:
  "printed out (map (\<lambda>(dx, dy). DrawText (f dx dy) txt fill) offs) = []"
  "measured (map (\<lambda>(dx, dy). DrawText (f dx dy) txt fill) offs) = []"
  "drawn (map (\<lambda>(dx, dy). DrawText (f dx dy) txt fill) offs) =
     map (\<lambda>(dx, dy). (f dx dy, txt, fill)) offs"
  "list_all (\<lambda>ev. \<not> is_print ev) (map (\<lambda>(dx, dy). DrawText (f dx dy) txt fill) offs)"
  by (induction offs) (simp_all add: split_def)

subsection \<open>The offsets of the shadow\<close>

lemma shadow_offsets_distinct: "distinct (shadow_offsets s)"
  by (simp add: shadow_offsets_def distinct_product)

lemma shadow_offsets_set:
  "set (shadow_offsets s) =
     {(dx, dy). - s \<le> dx \<and> dx \<le> s \<and> - s \<le> dy \<and> dy \<le> s \<and> (dx, dy) \<noteq> (0, 0)}"
  by (auto simp: shadow_offsets_def)

lemma shadow_offsets_length:
  assumes "0 \<le> s"
  shows "int (length (shadow_offsets s)) = (2 * s + 1) ^ 2 - 1"
proof -
  let ?xs = "List.product [- s..s] [- s..s]"
  have d: "distinct ?xs" by (simp add: distinct_product)
  have m: "(0, 0) \<in> set ?xs" using assms by simp
  have "shadow_offsets s = removeAll (0, 0) ?xs"
    by (simp add: shadow_offsets_def removeAll_filter_not_eq split_def prod_eq_iff)
  also have "\<dots> = remove1 (0, 0) ?xs" using d by (simp add: distinct_remove1_removeAll)
  finally have "length (shadow_offsets s) = length ?xs - 1" using m by (simp add: length_remove1)
  moreover have "length ?xs = nat (2 * s + 1) * nat (2 * s + 1)" using assms by simp
  moreover have "0 < length ?xs" using m by (cases ?xs) auto
  ultimately have "int (length (shadow_offsets s)) = int (nat (2 * s + 1) * nat (2 * s + 1)) - 1"
    by simp
  also have "\<dots> = (2 * s + 1) ^ 2 - 1" using assms by (simp add: power2_eq_square)
  finally show ?thesis .
qed

subsection \<open>The size in megabytes\<close>

lemma rne_div_near:
  assumes "0 < b"
  shows "\<bar>2 * (rne_div a b * b - a)\<bar> \<le> b"
proof -
  define q where "q = a div b"
  define r where "r = a mod b"
  have a: "a = q * b + r" by (simp add: q_def r_def)
  have r: "0 \<le> r" "r < b" using assms by (simp_all add: r_def)
  show ?thesis
  proof (cases "2 * r > b \<or> (2 * r = b \<and> odd q)")
    case True
    then have "rne_div a b = q + 1" by (simp add: rne_div_def q_def r_def Let_def)
    then have "rne_div a b * b - a = b - r" by (simp add: a algebra_simps)
    then show ?thesis using True r by auto
  next
    case False
    then have "rne_div a b = q" by (simp add: rne_div_def q_def r_def Let_def)
    then have "rne_div a b * b - a = - r" by (simp add: a)
    then show ?thesis using False r by auto
  qed
qed

lemma file_size_mb_eq:
  assumes "0 \<le> n" "n < 2 ^ 53"
  shows "py_round2 (truediv_2_20 n) = of_int (rne_div (n * 100) 1048576) / 100"
proof -
  have "round53 n = n" using assms by (rule round53_small)
  then show ?thesis
    using assms by (cases "n = 0") (simp_all add: py_round2_def truediv_2_20_def rne_div_def sgn_if)
qed

lemma file_size_mb_near:
  "\<bar>(of_int (rne_div (n * 100) 1048576) / 100 :: rat) - of_int n / 1048576\<bar> \<le> 1 / 200"
proof -
  define k where "k = rne_div (n * 100) 1048576"
  have "\<bar>2 * (k * 1048576 - n * 100)\<bar> \<le> 1048576"
    unfolding k_def by (rule rne_div_near) simp
  then have "\<bar>k * 1048576 - n * 100\<bar> \<le> 524288" by (simp add: abs_mult)
  then have "(of_int \<bar>k * 1048576 - n * 100\<bar> :: rat) \<le> of_int 524288"
    by (simp only: of_int_le_iff)
  then have "\<bar>(of_int k :: rat) * 1048576 - of_int n * 100\<bar> \<le> 524288" by simp
  moreover have "(of_int k / 100 :: rat) - of_int n / 1048576 =
                 (of_int k * 1048576 - of_int n * 100) / 104857600"
    by (simp add: field_simps)
  ultimately show ?thesis
    unfolding k_def [symmetric] by (simp add: abs_divide field_simps)
    
qed

subsection \<open>Runs on the small installation\<close>

lemma demo_run: "run demo_libs demo_fs demo_argv = (Exit 0, demo_final)"
  by (simp add: demo_run_ok demo_final_def)

lemma demo_open: "Image_open demo_libs demo_fs ''in.png'' = Inr (200, 100)"
  by (simp add: demo_libs_def)

lemma demo_size: "img_size demo_libs (200, 100) = (200, 100)"
  by (simp add: demo_libs_def)

lemma demo_getsize: "os_path_getsize demo_libs (files demo_final) ''out.jpg'' = Inr 1234567"
  by (simp add: demo_libs_def demo_final_def)







lemma info_message_sublist:
  "sublist (a @ ''x'' @ b) (''Image loaded: '' @ a @ ''x'' @ b @ '' pixels'')"
  using sublist_appendI [of "a @ ''x'' @ b" "''Image loaded: ''" "'' pixels''"] by simp

section \<open>The claims\<close>




text \<open>
  C2. The claim reads: for every decoded image of height \<open>H\<close>, the font size used for the
  watermark equals \<open>round(H * 0.05)\<close>, rounding to the nearest integer. Line 55 computes
  \<^verbatim>\<open>int(height * 0.05)\<close>, which truncates. For an image 15 pixels high the product is
  0.75: the program asks for a font of size 0, where rounding to the nearest integer
  gives 1.
\<close>

theorem font_size_15_is_not_rounded:
  "font_size_of 15 = 0 \<and> py_round (double_mul (double_of_int 15) lit_0_05) = 1"
  by (simp add: font_size_of_def py_int_def py_round_def double_mul_def double_of_int_def
        lit_0_05_def round53_def rne_div_def Let_def bitlen.simps)

text \<open>
  C2, as the program computes it: for every height \<open>H\<close> from 0 up to \<open>2 ^ 31\<close> the font
  size is \<open>H * 0.05\<close> truncated toward zero, which is the integer quotient of \<open>H\<close> by 20.
  The product is taken in double precision; the rounding of the product never reaches
  the next multiple of 20.
\<close>

theorem font_size_truncates:
  assumes "0 \<le> H" and "H < 2 ^ 31"
  shows "font_size_of H = H div 20"
  using assms by (rule font_size_of_eq)

text \<open>A Full HD frame, 1080 pixels high, gets a font of size 54.\<close>

theorem font_size_truncates_witness:
  "(0::int) \<le> 1080 \<and> (1080::int) < 2 ^ 31 \<and> font_size_of 1080 = 54"
  using font_size_truncates [of 1080] by simp

text \<open>
  C3. On a successful run for an image decoded with height \<open>H\<close>, let
  \<open>s = max(2, font_size // 30)\<close>. The calls of \<^verbatim>\<open>draw.text\<close> are, in order: one in
  opaque black at \<open>(x + dx, y + dy)\<close> for each offset of a list \<open>offs\<close>, then one at
  \<open>(x, y)\<close> in \<open>(200, 230, 255, 255)\<close>. The list \<open>offs\<close> has no repetition, its elements are
  exactly the pairs of the square from \<open>-s\<close> to \<open>s\<close> other than \<open>(0, 0)\<close>, and it has
  \<open>(2s + 1)\<^sup>2 - 1\<close> elements.
\<close>

theorem shadow_then_main_text:
  assumes "run L fs [prog, inp, out] = (Exit 0, w')"
    and "Image_open L fs inp = Inr img0" and "img_size L img0 = (W, H)"
    and "s = max 2 (font_size_of H div 30)"
  shows "\<exists>x y offs.
           drawn (trace w') =
             map (\<lambda>(dx, dy). ((x + dx, y + dy), ''SATORU GOJO'', (0, 0, 0, 255))) offs
             @ [((x, y), ''SATORU GOJO'', (200, 230, 255, 255))] \<and>
           distinct offs \<and>
           set offs = {(dx, dy). - s \<le> dx \<and> dx \<le> s \<and> - s \<le> dy \<and> dy \<le> s \<and> (dx, dy) \<noteq> (0, 0)} \<and>
           int (length offs) = (2 * s + 1) ^ 2 - 1"
proof -
  from run_ok [OF assms(1)] obtain img0' W' H' bb n where
    o: "Image_open L fs inp = Inr img0'" "img_size L img0' = (W', H')"
    and t: "trace w' = ok_trace L inp out W' H' bb n"
    by blast
  from o assms(2,3) have W: "W' = W" "H' = H" by simp_all
  obtain l t r b where bb: "bb = (l, t, r, b)" by (cases bb)
  have s0: "0 \<le> s" using assms(4) by simp
  show ?thesis
    apply (rule exI [of _ "(W - (r - l)) div 2"], rule exI [of _ "(H - (b - t)) div 2"],
           rule exI [of _ "shadow_offsets s"])
    using shadow_offsets_length [OF s0]
    by (simp add: t ok_trace_def W bb assms(4) shadow_offsets_distinct shadow_offsets_set)
qed

text \<open>For the 200 by 100 image the font size is 5, so \<open>s = 2\<close> and there are 24 shadow draws.\<close>

theorem shadow_then_main_text_witness:
  "run demo_libs demo_fs demo_argv = (Exit 0, demo_final) \<and>
   Image_open demo_libs demo_fs ''in.png'' = Inr (200, 100) \<and>
   img_size demo_libs (200, 100) = (200, 100) \<and>
   (2::int) = max 2 (font_size_of 100 div 30) \<and>
   (\<exists>x y offs.
      drawn (trace demo_final) =
        map (\<lambda>(dx, dy). ((x + dx, y + dy), ''SATORU GOJO'', (0, 0, 0, 255))) offs
        @ [((x, y), ''SATORU GOJO'', (200, 230, 255, 255))] \<and>
      distinct offs \<and>
      set offs = {(dx, dy). - 2 \<le> dx \<and> dx \<le> 2 \<and> - 2 \<le> dy \<and> dy \<le> 2 \<and> (dx, dy) \<noteq> (0, 0)} \<and>
      int (length offs) = 24)"
proof -
  have s: "(2::int) = max 2 (font_size_of 100 div 30)" by (simp add: demo_font_size)
  show ?thesis
    using shadow_then_main_text [OF demo_run [unfolded demo_argv_def] demo_open demo_size s]
    by (simp add: demo_run demo_open demo_size demo_font_size)
qed



text \<open>
  C5. With any number of arguments other than two after the program name, the process
  writes one record with \<open>error_type\<close> \<open>''InvalidArguments''\<close> to standard error and exits
  with code 1. That record is all that is observed: no call into \<^verbatim>\<open>os.path\<close> or Pillow
  is made, and the file system is left as it was.
\<close>

theorem wrong_argument_count:
  assumes "length argv \<noteq> 3"
  shows "run L fs argv =
           (Exit 1, \<lparr>trace = [Print Stderr
                                 (error_record ''Usage: image_processor <input_path> <output_path>''
                                    ''InvalidArguments'')],
                      files = fs\<rparr>) \<and>
         json_get (error_record ''Usage: image_processor <input_path> <output_path>''
                     ''InvalidArguments'') ''error_type'' = Some (JString ''InvalidArguments'')"
  using assms by (simp add: run_usage error_record_def)

text \<open>The program called with the input path only.\<close>

theorem wrong_argument_count_witness:
  "length [''image_processor'', ''in.png''] \<noteq> 3 \<and>
   run demo_libs demo_fs [''image_processor'', ''in.png''] =
     (Exit 1, \<lparr>trace = [Print Stderr
                           (error_record ''Usage: image_processor <input_path> <output_path>''
                              ''InvalidArguments'')],
                files = demo_fs\<rparr>)"
  using wrong_argument_count [of "[''image_processor'', ''in.png'']" demo_libs demo_fs] by simp

text \<open>
  C6. On a successful run for an image decoded as \<open>W\<close> by \<open>H\<close>, the one box measured for
  the watermark, \<open>(left, top, right, bottom)\<close>, is what \<^verbatim>\<open>draw.textbbox\<close> returned for the
  chosen font; with \<open>text_width = right - left\<close> and \<open>text_height = bottom - top\<close>, the
  main text is drawn at \<open>((W - text_width) // 2, (H - text_height) // 2)\<close>, and the shadow
  draws are offsets from the same origin. \<open>div\<close> on integers is floor division.
\<close>

theorem text_is_centred:
  assumes "run L fs [prog, inp, out] = (Exit 0, w')"
    and "Image_open L fs inp = Inr img0" and "img_size L img0 = (W, H)"
  shows "\<exists>img left top right bottom text_width text_height.
           draw_textbbox L img (0, 0) ''SATORU GOJO'' (chosen_font L (font_size_of H)) =
             Inr (left, top, right, bottom) \<and>
           measured (trace w') = [(left, top, right, bottom)] \<and>
           text_width = right - left \<and> text_height = bottom - top \<and>
           last (drawn (trace w')) =
             (((W - text_width) div 2, (H - text_height) div 2),
              ''SATORU GOJO'', (200, 230, 255, 255)) \<and>
           butlast (drawn (trace w')) =
             map (\<lambda>(dx, dy). (((W - text_width) div 2 + dx, (H - text_height) div 2 + dy),
                                ''SATORU GOJO'', (0, 0, 0, 255)))
                 (shadow_offsets (max 2 (font_size_of H div 30)))"
proof -
  from run_ok [OF assms(1)] obtain img0' W' H' img bb n where
    o: "Image_open L fs inp = Inr img0'" "img_size L img0' = (W', H')"
    and m: "draw_textbbox L img (0, 0) ''SATORU GOJO'' (chosen_font L (font_size_of H')) = Inr bb"
    and t: "trace w' = ok_trace L inp out W' H' bb n"
    by blast
  from o assms(2,3) have W: "W' = W" "H' = H" by simp_all
  obtain l t r b where bb: "bb = (l, t, r, b)" by (cases bb)
  show ?thesis
    apply (rule exI [of _ img], rule exI [of _ l], rule exI [of _ t], rule exI [of _ r],
           rule exI [of _ b], rule exI [of _ "r - l"], rule exI [of _ "b - t"])
    using m by (simp add: t ok_trace_def W bb butlast_append)
qed

text \<open>The 66 by 8 box on the 200 by 100 image puts the text at \<open>(67, 46)\<close>.\<close>

theorem text_is_centred_witness:
  "run demo_libs demo_fs demo_argv = (Exit 0, demo_final) \<and>
   Image_open demo_libs demo_fs ''in.png'' = Inr (200, 100) \<and>
   img_size demo_libs (200, 100) = (200, 100) \<and>
   measured (trace demo_final) = [(0, 3, 66, 11)] \<and>
   last (drawn (trace demo_final)) = ((67, 46), ''SATORU GOJO'', (200, 230, 255, 255))"
proof -
  from text_is_centred [OF demo_run [unfolded demo_argv_def] demo_open demo_size]
  obtain left top right bottom where
    1: "measured (trace demo_final) = [(left, top, right, bottom)]"
    and 2: "last (drawn (trace demo_final)) =
             (((200 - (right - left)) div 2, (100 - (bottom - top)) div 2),
              ''SATORU GOJO'', (200, 230, 255, 255))"
    by auto
  have "measured (trace demo_final) = [(0, 3, 66, 11)]"
    by (simp add: demo_final_def ok_trace_def)
  with 1 have "left = 0" "top = 3" "right = 66" "bottom = 11" by simp_all
  with 1 2 show ?thesis by (simp add: demo_run demo_open demo_size)
qed

text \<open>
  C7. On a successful run, the last thing the process does is print the success record
  on standard output. Its \<open>details\<close> are the two paths as given, the dimensions
  \<^verbatim>\<open>"{W}x{H}"\<close> of the image as \<^verbatim>\<open>Image.open\<close> returned it, and \<open>file_size_mb\<close>, which is
  the size \<open>n\<close> of the file as \<^verbatim>\<open>img.save\<close> left it, divided by 1048576 and rounded to
  two decimals: a number of hundredths, at most half a hundredth away from the exact
  quotient (ties go to the even hundredth). File sizes below \<open>2 ^ 53\<close> bytes convert to a
  double without rounding.
\<close>

theorem success_details:
  assumes "run L fs [prog, inp, out] = (Exit 0, w')"
    and "Image_open L fs inp = Inr img0" and "img_size L img0 = (W, H)"
    and "os_path_getsize L (files w') out = Inr n" and "0 \<le> n" and "n < 2 ^ 53"
  shows "\<exists>mb img.
           last (trace w') =
             Print Stdout (success_record inp out (str_int W @ ''x'' @ str_int H) mb) \<and>
           json_get (success_record inp out (str_int W @ ''x'' @ str_int H) mb) ''details'' =
             Some (JObject [(''input_path'', JString inp), (''output_path'', JString out),
                            (''dimensions'', JString (str_int W @ ''x'' @ str_int H)),
                            (''file_size_mb'', JNumber mb)]) \<and>
           img_save L fs img out 95 = (Inr (), files w') \<and>
           mb = of_int (rne_div (n * 100) 1048576) / 100 \<and>
           \<bar>mb - of_int n / 1048576\<bar> \<le> 1 / 200"
proof -
  from run_ok [OF assms(1)] obtain img0' W' H' bb img' n' where
    o: "Image_open L fs inp = Inr img0'" "img_size L img0' = (W', H')"
    and s: "img_save L fs img' out 95 = (Inr (), files w')"
    and g: "os_path_getsize L (files w') out = Inr n'"
    and t: "trace w' = ok_trace L inp out W' H' bb n'"
    by blast
  from o assms(2,3) have W: "W' = W" "H' = H" by simp_all
  from g assms(4) have n: "n' = n" by simp
  let ?mb = "of_int (rne_div (n * 100) 1048576) / 100 :: rat"
  have "last (trace w') =
          Print Stdout (success_record inp out (str_int W @ ''x'' @ str_int H) ?mb)"
    by (simp add: t ok_trace_def W n split_def file_size_mb_eq [OF assms(5,6)])
  moreover have "json_get (success_record inp out (str_int W @ ''x'' @ str_int H) ?mb) ''details'' =
             Some (JObject [(''input_path'', JString inp), (''output_path'', JString out),
                            (''dimensions'', JString (str_int W @ ''x'' @ str_int H)),
                            (''file_size_mb'', JNumber ?mb)])"
    by (simp add: success_record_def)
  moreover note s file_size_mb_near [of n]
  ultimately show ?thesis by blast
qed

text \<open>An output of 1234567 bytes is reported as 1.18 megabytes.\<close>

theorem success_details_witness:
  "run demo_libs demo_fs demo_argv = (Exit 0, demo_final) \<and>
   Image_open demo_libs demo_fs ''in.png'' = Inr (200, 100) \<and>
   img_size demo_libs (200, 100) = (200, 100) \<and>
   os_path_getsize demo_libs (files demo_final) ''out.jpg'' = Inr 1234567 \<and>
   last (trace demo_final) =
     Print Stdout (success_record ''in.png'' ''out.jpg'' ''200x100'' (118 / 100))"
proof -
  have n: "(0::int) \<le> 1234567" "(1234567::int) < 2 ^ 53" by simp_all
  from success_details [OF demo_run [unfolded demo_argv_def] demo_open demo_size demo_getsize n]
  obtain mb where
    1: "last (trace demo_final) =
       Print Stdout (success_record ''in.png'' ''out.jpg'' (str_int 200 @ ''x'' @ str_int 100) mb)"
    and 2: "mb = of_int (rne_div (1234567 * 100) 1048576) / 100"
    by blast
  have "mb = 118 / 100" unfolding 2 by (simp add: rne_div_def)
  with 1 show ?thesis
    by (simp add: demo_run demo_open demo_size demo_getsize str_int_def digit_char_def)
qed

text \<open>
  C8. On a successful run exactly six records are written to standard output and none to
  standard error. Read field by field, their \<open>status\<close> values are \<open>loading\<close>, \<open>info\<close>,
  \<open>processing\<close>, \<open>processing\<close>, \<open>saving\<close>, \<open>success\<close>, in this order, and the \<open>message\<close> of
  the \<open>info\<close> record contains the decoded \<^verbatim>\<open>"{width}x{height}"\<close>. In the order of events,
  \<open>loading\<close> comes right before \<^verbatim>\<open>Image.open\<close> and \<open>info\<close> right after it, the first
  \<open>processing\<close> right before the four filters, the second right before the overlay, and
  \<open>saving\<close> right before \<^verbatim>\<open>img.save\<close>; the \<open>success\<close> record is last.
\<close>

theorem six_status_records:
  assumes "run L fs [prog, inp, out] = (Exit 0, w')"
  shows "\<exists>W H mb overlay sizing info_message.
           (\<exists>img0. Image_open L fs inp = Inr img0 \<and> img_size L img0 = (W, H)) \<and>
           printed Stdout (trace w') =
             [status_record ''loading'' ''Loading image...'',
              status_record ''info''
                (''Image loaded: '' @ str_int W @ ''x'' @ str_int H @ '' pixels''),
              status_record ''processing'' ''Applying filters...'',
              status_record ''processing'' ''Adding text overlay...'',
              status_record ''saving'' ''Saving processed image...'',
              success_record inp out (str_int W @ ''x'' @ str_int H) mb] \<and>
           printed Stderr (trace w') = [] \<and>
           trace w' =
             [PathExists inp True,
              Print Stdout (status_record ''loading'' ''Loading image...''),
              ImageOpen inp,
              Print Stdout (status_record ''info''
                              (''Image loaded: '' @ str_int W @ ''x'' @ str_int H @ '' pixels'')),
              Print Stdout (status_record ''processing'' ''Applying filters...''),
              Sharpness (3 / 2), FilterEdgeEnhance, Contrast (6 / 5), FilterSmooth,
              Print Stdout (status_record ''processing'' ''Adding text overlay...'')]
             @ overlay
             @ [Print Stdout (status_record ''saving'' ''Saving processed image...''),
                Save out 95]
             @ sizing
             @ [Print Stdout (success_record inp out (str_int W @ ''x'' @ str_int H) mb)] \<and>
           list_all (\<lambda>ev. \<not> is_print ev) overlay \<and>
           list_all (\<lambda>ev. \<not> is_print ev) sizing \<and>
           length (printed Stdout (trace w')) = 6 \<and>
           map (\<lambda>record. json_get record ''status'') (printed Stdout (trace w')) =
             [Some (JString ''loading''), Some (JString ''info''),
              Some (JString ''processing''), Some (JString ''processing''),
              Some (JString ''saving''), Some (JString ''success'')] \<and>
           map (\<lambda>record. json_get record ''message'') (printed Stdout (trace w')) =
             [Some (JString ''Loading image...''), Some (JString info_message),
              Some (JString ''Applying filters...''), Some (JString ''Adding text overlay...''),
              Some (JString ''Saving processed image...''),
              Some (JString ''Image processed successfully'')] \<and>
           sublist (str_int W @ ''x'' @ str_int H) info_message \<and>
           take 5 (printed Stdout (trace w')) =
             [JObject [(''status'', JString ''loading''), (''message'', JString ''Loading image...'')],
              JObject [(''status'', JString ''info''), (''message'', JString info_message)],
              JObject [(''status'', JString ''processing''),
                       (''message'', JString ''Applying filters...'')],
              JObject [(''status'', JString ''processing''),
                       (''message'', JString ''Adding text overlay...'')],
              JObject [(''status'', JString ''saving''),
                       (''message'', JString ''Saving processed image...'')]]"
proof -
  from run_ok [OF assms] obtain img0 W H bb n where
    o: "Image_open L fs inp = Inr img0" "img_size L img0 = (W, H)"
    and t: "trace w' = ok_trace L inp out W H bb n"
    by blast
  obtain l t r b where bb: "bb = (l, t, r, b)" by (cases bb)
  let ?x = "(W - (r - l)) div 2" and ?y = "(H - (b - t)) div 2"
  let ?overlay = "NewDraw # font_events L (font_size_of H)
      @ [TextBBox (0, 0) ''SATORU GOJO'', Measured bb]
      @ map (\<lambda>(dx, dy). DrawText (?x + dx, ?y + dy) ''SATORU GOJO'' (0, 0, 0, 255))
            (shadow_offsets (max 2 (font_size_of H div 30)))
      @ [DrawText (?x, ?y) ''SATORU GOJO'' (200, 230, 255, 255)]"
  let ?sizing = "[GetSize out, FileSize n]"
  let ?msg = "''Image loaded: '' @ str_int W @ ''x'' @ str_int H @ '' pixels''"
  have sub: "sublist (str_int W @ ''x'' @ str_int H) ?msg"
    by (rule info_message_sublist)
  have p: "printed Stdout (trace w') =
             [status_record ''loading'' ''Loading image...'',
              status_record ''info'' ?msg,
              status_record ''processing'' ''Applying filters...'',
              status_record ''processing'' ''Adding text overlay...'',
              status_record ''saving'' ''Saving processed image...'',
              success_record inp out (str_int W @ ''x'' @ str_int H) (py_round2 (truediv_2_20 n))]"
    by (simp add: t ok_trace_def bb)
  have fields:
    "map (\<lambda>record. json_get record ''status'') (printed Stdout (trace w')) =
       [Some (JString ''loading''), Some (JString ''info''),
        Some (JString ''processing''), Some (JString ''processing''),
        Some (JString ''saving''), Some (JString ''success'')]"
    "map (\<lambda>record. json_get record ''message'') (printed Stdout (trace w')) =
       [Some (JString ''Loading image...''), Some (JString ?msg),
        Some (JString ''Applying filters...''), Some (JString ''Adding text overlay...''),
        Some (JString ''Saving processed image...''),
        Some (JString ''Image processed successfully'')]"
    "take 5 (printed Stdout (trace w')) =
       [JObject [(''status'', JString ''loading''), (''message'', JString ''Loading image...'')],
        JObject [(''status'', JString ''info''), (''message'', JString ?msg)],
        JObject [(''status'', JString ''processing''),
                 (''message'', JString ''Applying filters...'')],
        JObject [(''status'', JString ''processing''),
                 (''message'', JString ''Adding text overlay...'')],
        JObject [(''status'', JString ''saving''),
                 (''message'', JString ''Saving processed image...'')]]"
    "length (printed Stdout (trace w')) = 6"
    unfolding p by (simp_all add: status_record_def success_record_def)
  have shape: "printed Stderr (trace w') = [] \<and>
           trace w' =
             [PathExists inp True,
              Print Stdout (status_record ''loading'' ''Loading image...''),
              ImageOpen inp,
              Print Stdout (status_record ''info'' ?msg),
              Print Stdout (status_record ''processing'' ''Applying filters...''),
              Sharpness (3 / 2), FilterEdgeEnhance, Contrast (6 / 5), FilterSmooth,
              Print Stdout (status_record ''processing'' ''Adding text overlay...'')]
             @ ?overlay
             @ [Print Stdout (status_record ''saving'' ''Saving processed image...''),
                Save out 95]
             @ ?sizing
             @ [Print Stdout (success_record inp out (str_int W @ ''x'' @ str_int H)
                                (py_round2 (truediv_2_20 n)))] \<and>
           list_all (\<lambda>ev. \<not> is_print ev) ?overlay \<and>
           list_all (\<lambda>ev. \<not> is_print ev) ?sizing"
    by (simp add: t ok_trace_def bb)
  show ?thesis
    apply (rule exI [of _ W], rule exI [of _ H], rule exI [of _ "py_round2 (truediv_2_20 n)"],
           rule exI [of _ ?overlay], rule exI [of _ ?sizing], rule exI [of _ ?msg])
    using o p fields sub shape by blast
qed

text \<open>
  The six records of the run on the small installation, with the fields read from them:
  the \<open>info\<close> message is \<open>Image loaded: 200x100 pixels\<close>.
\<close>

theorem six_status_records_witness:
  "run demo_libs demo_fs demo_argv = (Exit 0, demo_final) \<and>
   printed Stdout (trace demo_final) =
     [status_record ''loading'' ''Loading image...'',
      status_record ''info'' ''Image loaded: 200x100 pixels'',
      status_record ''processing'' ''Applying filters...'',
      status_record ''processing'' ''Adding text overlay...'',
      status_record ''saving'' ''Saving processed image...'',
      success_record ''in.png'' ''out.jpg'' ''200x100'' (118 / 100)] \<and>
   printed Stderr (trace demo_final) = [] \<and>
   map (\<lambda>record. json_get record ''status'') (printed Stdout (trace demo_final)) =
     [Some (JString ''loading''), Some (JString ''info''),
      Some (JString ''processing''), Some (JString ''processing''),
      Some (JString ''saving''), Some (JString ''success'')] \<and>
   json_get (printed Stdout (trace demo_final) ! 1) ''message'' =
     Some (JString ''Image loaded: 200x100 pixels'') \<and>
   sublist ''200x100'' ''Image loaded: 200x100 pixels''"
proof -
  from six_status_records [OF demo_run [unfolded demo_argv_def]]
  obtain W H mb info_message where
    1: "\<exists>img0. Image_open demo_libs demo_fs ''in.png'' = Inr img0 \<and> img_size demo_libs img0 = (W, H)"
    and 2: "printed Stdout (trace demo_final) =
             [status_record ''loading'' ''Loading image...'',
              status_record ''info''
                (''Image loaded: '' @ str_int W @ ''x'' @ str_int H @ '' pixels''),
              status_record ''processing'' ''Applying filters...'',
              status_record ''processing'' ''Adding text overlay...'',
              status_record ''saving'' ''Saving processed image...'',
              success_record ''in.png'' ''out.jpg'' (str_int W @ ''x'' @ str_int H) mb]"
    and 3: "printed Stderr (trace demo_final) = []"
    and 4: "last (trace demo_final) =
              Print Stdout (success_record ''in.png'' ''out.jpg'' (str_int W @ ''x'' @ str_int H) mb)"
    and 5: "map (\<lambda>record. json_get record ''status'') (printed Stdout (trace demo_final)) =
             [Some (JString ''loading''), Some (JString ''info''),
              Some (JString ''processing''), Some (JString ''processing''),
              Some (JString ''saving''), Some (JString ''success'')]"
    and 6: "map (\<lambda>record. json_get record ''message'') (printed Stdout (trace demo_final)) =
             [Some (JString ''Loading image...''), Some (JString info_message),
              Some (JString ''Applying filters...''), Some (JString ''Adding text overlay...''),
              Some (JString ''Saving processed image...''),
              Some (JString ''Image processed successfully'')]"
    and 7: "sublist (str_int W @ ''x'' @ str_int H) info_message"
    by auto
  from 1 have W: "W = 200" "H = 100" by (simp_all add: demo_libs_def)
  have "last (trace demo_final) =
          Print Stdout (success_record ''in.png'' ''out.jpg'' ''200x100'' (118 / 100))"
    by (simp add: demo_final_def ok_trace_def str_int_def digit_char_def py_round2_def
          truediv_2_20_def round53_def rne_div_def bitlen.simps Let_def)
  with 4 have mb: "mb = 118 / 100" by (simp add: success_record_def)
  have s: "str_int 200 @ ''x'' @ str_int 100 = ''200x100''"
    by (simp add: str_int_def digit_char_def)
  from 2 have p: "printed Stdout (trace demo_final) =
     [status_record ''loading'' ''Loading image...'',
      status_record ''info'' ''Image loaded: 200x100 pixels'',
      status_record ''processing'' ''Applying filters...'',
      status_record ''processing'' ''Adding text overlay...'',
      status_record ''saving'' ''Saving processed image...'',
      success_record ''in.png'' ''out.jpg'' ''200x100'' (118 / 100)]"
    using W mb by (simp add: str_int_def digit_char_def)
  from 6 have "info_message = ''Image loaded: 200x100 pixels''"
    unfolding p by (simp add: status_record_def)
  with 7 have sub: "sublist ''200x100'' ''Image loaded: 200x100 pixels''"
    using W s by simp
  have m: "json_get (printed Stdout (trace demo_final) ! 1) ''message'' =
             Some (JString ''Image loaded: 200x100 pixels'')"
    unfolding p by (simp add: status_record_def)
  show ?thesis
    using p 3 5 sub m demo_run by simp
qed

text \<open>
  C9. The font is \<^verbatim>\<open>arial.ttf\<close> when that loads; otherwise \<^verbatim>\<open>Arial.ttf\<close> when that
  loads; otherwise the built-in default font. Whatever the two truetype loads raise, the
  selection returns a font, prints nothing on either stream and leaves the file system
  alone.
\<close>

theorem font_fallback:
  "(\<forall>f. ImageFont_truetype L ''arial.ttf'' n = Inr f \<longrightarrow>
        load_font L n w = (Inr f, observe w [Truetype ''arial.ttf'' n])) \<and>
   (\<forall>e f. ImageFont_truetype L ''arial.ttf'' n = Inl e \<longrightarrow>
          ImageFont_truetype L ''Arial.ttf'' n = Inr f \<longrightarrow>
          load_font L n w = (Inr f, observe w [Truetype ''arial.ttf'' n, Truetype ''Arial.ttf'' n])) \<and>
   (\<forall>e e'. ImageFont_truetype L ''arial.ttf'' n = Inl e \<longrightarrow>
           ImageFont_truetype L ''Arial.ttf'' n = Inl e' \<longrightarrow>
           load_font L n w =
             (Inr (ImageFont_load_default L),
              observe w [Truetype ''arial.ttf'' n, Truetype ''Arial.ttf'' n, LoadDefault])) \<and>
   (\<exists>font w'. load_font L n w = (Inr font, w') \<and> files w' = files w \<and>
              printed Stdout (trace w') = printed Stdout (trace w) \<and>
              printed Stderr (trace w') = printed Stderr (trace w))"
proof -
  have quiet: "\<exists>font w'. load_font L n w = (Inr font, w') \<and> files w' = files w \<and>
                 printed Stdout (trace w') = printed Stdout (trace w) \<and>
                 printed Stderr (trace w') = printed Stderr (trace w)"
    by (simp add: load_font_eq)
  show ?thesis
    by (intro conjI allI impI quiet) (simp_all add: load_font_eq chosen_font_def font_events_def)
qed

text \<open>
  The three cases, and the whole run with neither Arial file installed: it exits with
  code 0 and writes nothing to standard error.
\<close>

theorem font_fallback_witness:
  "load_font arial_libs 5 demo_start = (Inr ''arial.ttf'', observe demo_start [Truetype ''arial.ttf'' 5]) \<and>
   load_font Arial_libs 5 demo_start =
     (Inr ''Arial.ttf'', observe demo_start [Truetype ''arial.ttf'' 5, Truetype ''Arial.ttf'' 5]) \<and>
   load_font demo_libs 5 demo_start =
     (Inr ''default'',
      observe demo_start [Truetype ''arial.ttf'' 5, Truetype ''Arial.ttf'' 5, LoadDefault]) \<and>
   run demo_libs demo_fs demo_argv = (Exit 0, demo_final) \<and>
   printed Stderr (trace demo_final) = []"
proof -
  have "load_font arial_libs 5 demo_start = (Inr ''arial.ttf'', observe demo_start [Truetype ''arial.ttf'' 5])"
    using font_fallback [of arial_libs 5 demo_start] by (simp add: arial_libs_def demo_libs_def)
  moreover have "load_font Arial_libs 5 demo_start =
     (Inr ''Arial.ttf'', observe demo_start [Truetype ''arial.ttf'' 5, Truetype ''Arial.ttf'' 5])"
    using font_fallback [of Arial_libs 5 demo_start] by (simp add: Arial_libs_def demo_libs_def)
  moreover have "load_font demo_libs 5 demo_start =
     (Inr ''default'',
      observe demo_start [Truetype ''arial.ttf'' 5, Truetype ''Arial.ttf'' 5, LoadDefault])"
    using font_fallback [of demo_libs 5 demo_start] by (simp add: demo_libs_def)
  moreover have "printed Stderr (trace demo_final) = []"
    by (simp add: demo_final_def ok_trace_def)
  ultimately show ?thesis by (simp add: demo_run)
qed

text \<open>
  C10. When \<^verbatim>\<open>os.path.exists\<close> answers no for the input path, nothing is written to
  standard output: the whole run is the existence check followed by the one error record
  on standard error.
\<close>

theorem missing_input_prints_nothing_on_stdout:
  assumes "\<not> os_path_exists L fs inp"
  shows "printed Stdout (trace (snd (run L fs [prog, inp, out]))) = [] \<and>
         trace (snd (run L fs [prog, inp, out])) =
           [PathExists inp False,
            Print Stderr (error_record (''Input image not found: '' @ inp) ''FileNotFoundError'')]"
  using run_missing [OF assms, of prog out] by simp

text \<open>The same missing file \<^verbatim>\<open>gone.png\<close>.\<close>

theorem missing_input_prints_nothing_on_stdout_witness:
  "\<not> os_path_exists demo_libs demo_fs ''gone.png'' \<and>
   printed Stdout (trace (snd (run demo_libs demo_fs [''image_processor'', ''gone.png'', ''out.jpg'']))) = [] \<and>
   trace (snd (run demo_libs demo_fs [''image_processor'', ''gone.png'', ''out.jpg''])) =
     [PathExists ''gone.png'' False,
      Print Stderr (error_record ''Input image not found: gone.png'' ''FileNotFoundError'')]"
proof -
  have h: "\<not> os_path_exists demo_libs demo_fs ''gone.png''"
    by (simp add: demo_libs_def demo_fs_def)
  show ?thesis
    using h missing_input_prints_nothing_on_stdout [OF h, of "''image_processor''" "''out.jpg''"]
    by simp
qed

end
